theory Spec2Isabelle
  imports Complex_Main "HOL-Library.AList"
begin

section \<open>Data model\<close>

text \<open>
  The slice \<open>state.generation\<close> of the application state, with the eleven fields that
  \<open>buildTextToImageGraph\<close> destructures. Both records are extensible: the remaining
  fields of the slice and the remaining slices of the root state are the \<open>more\<close> part.
  The numbers that the builder copies or compares with 1 are integers (\<open>cfgScale\<close> is
  a fraction such as 7.5 and is only copied).
\<close>

record GenerationState =
  positivePrompt :: string
  negativePrompt :: string
  model :: string
  cfgScale :: real
  scheduler :: string
  steps :: int
  width :: int
  height :: int
  iterations :: int
  seed :: int
  shouldRandomizeSeed :: bool

record 'g RootState =
  generation :: "'g GenerationState_scheme"

text \<open>
  The invocations (nodes) that the builder creates. The constructor is the \<open>type\<close> tag
  of the TypeScript object; an optional field that the object literal leaves out is
  \<open>None\<close>.
\<close>

datatype Invocation =
    CompelInvocation (inv_id: string) (inv_prompt: string) (inv_model: string)
  | TextToLatentsInvocation (inv_id: string) (inv_cfg_scale: real) (inv_model: string)
      (inv_scheduler: string) (inv_steps: int)
  | LatentsToImageInvocation (inv_id: string) (inv_model: string)
  | NoiseInvocation (inv_id: string) (inv_seed: "int option") (inv_width: int) (inv_height: int)
  | RandomIntInvocation (inv_id: string)
  | RangeOfSizeInvocation (inv_id: string) (inv_start: "int option") (inv_size: int)
  | IterateInvocation (inv_id: string)

fun inv_type :: "Invocation \<Rightarrow> string" where
  "inv_type (CompelInvocation _ _ _) = ''compel''"
| "inv_type (TextToLatentsInvocation _ _ _ _ _) = ''t2l''"
| "inv_type (LatentsToImageInvocation _ _) = ''l2i''"
| "inv_type (NoiseInvocation _ _ _ _) = ''noise''"
| "inv_type (RandomIntInvocation _) = ''rand_int''"
| "inv_type (RangeOfSizeInvocation _ _ _) = ''range_of_size''"
| "inv_type (IterateInvocation _) = ''iterate''"

record EdgeConnection =
  node_id :: string
  field :: string

record Edge =
  source :: EdgeConnection
  destination :: EdgeConnection

text \<open>
  \<open>graph.nodes\<close> is a JavaScript object keyed by node id: an association list in
  insertion order, where assigning to a key replaces the value of a key that is there
  and appends a key that is not (\<open>AList.update\<close>). \<open>graph.edges\<close> is an array.
\<close>

record NonNullableGraph =
  nodes :: "(string \<times> Invocation) list"
  edges :: "Edge list"

definition set_node :: "string \<Rightarrow> Invocation \<Rightarrow> NonNullableGraph \<Rightarrow> NonNullableGraph" where
  \<comment> \<open>\<open>graph.nodes[k] = v\<close>\<close>
  "set_node k v graph = graph\<lparr>nodes := AList.update k v (nodes graph)\<rparr>"

definition push_edge :: "Edge \<Rightarrow> NonNullableGraph \<Rightarrow> NonNullableGraph" where
  \<comment> \<open>\<open>graph.edges.push(e)\<close>\<close>
  "push_edge e graph = graph\<lparr>edges := edges graph @ [e]\<rparr>"

definition mk_edge :: "string \<Rightarrow> string \<Rightarrow> string \<Rightarrow> string \<Rightarrow> Edge" where
  \<comment> \<open>the object literal \<open>{source: {node_id, field}, destination: {node_id, field}}\<close>\<close>
  "mk_edge sn sf dn df =
     \<lparr>source = \<lparr>node_id = sn, field = sf\<rparr>, destination = \<lparr>node_id = dn, field = df\<rparr>\<rparr>"

section \<open>Node id constants\<close>

named_theorems node_ids \<open>the node id constants of the builder\<close>

definition POSITIVE_CONDITIONING :: string where
  [node_ids]: "POSITIVE_CONDITIONING = ''positive_conditioning''"

definition NEGATIVE_CONDITIONING :: string where
  [node_ids]: "NEGATIVE_CONDITIONING = ''negative_conditioning''"

definition TEXT_TO_LATENTS :: string where
  [node_ids]: "TEXT_TO_LATENTS = ''text_to_latents''"

definition LATENTS_TO_IMAGE :: string where
  [node_ids]: "LATENTS_TO_IMAGE = ''latents_to_image''"

definition NOISE :: string where
  [node_ids]: "NOISE = ''noise''"

definition RANDOM_INT :: string where
  [node_ids]: "RANDOM_INT = ''rand_int''"

definition RANGE_OF_SIZE :: string where
  [node_ids]: "RANGE_OF_SIZE = ''range_of_size''"

definition ITERATE :: string where
  [node_ids]: "ITERATE = ''iterate''"

section \<open>The builder\<close>

text \<open>
  \<open>addControlNetToLinearGraph\<close> is imported from another module; the builder takes it
  as the parameter \<open>addControlNet\<close>. The TypeScript mutates \<open>graph\<close> in place; here
  each statement returns the updated graph, in the order of the source.
\<close>

type_synonym ('g, 'r) extender =
  "NonNullableGraph \<Rightarrow> string \<Rightarrow> ('g, 'r) RootState_scheme \<Rightarrow> NonNullableGraph"

definition buildTextToImageGraph ::
  "('g, 'r) extender \<Rightarrow> ('g, 'r) RootState_scheme \<Rightarrow> NonNullableGraph" where
  "buildTextToImageGraph addControlNet state =
    (let
       gen = generation state;
       graph = \<lparr>nodes = [], edges = []\<rparr>;

       positiveConditioningNode =
         CompelInvocation POSITIVE_CONDITIONING (positivePrompt gen) (model gen);
       negativeConditioningNode =
         CompelInvocation NEGATIVE_CONDITIONING (negativePrompt gen) (model gen);
       textToLatentsNode =
         TextToLatentsInvocation TEXT_TO_LATENTS (cfgScale gen) (model gen) (scheduler gen)
           (steps gen);
       latentsToImageNode = LatentsToImageInvocation LATENTS_TO_IMAGE (model gen);

       graph = set_node POSITIVE_CONDITIONING positiveConditioningNode graph;
       graph = set_node NEGATIVE_CONDITIONING negativeConditioningNode graph;
       graph = set_node TEXT_TO_LATENTS textToLatentsNode graph;
       graph = set_node LATENTS_TO_IMAGE latentsToImageNode graph;

       graph = push_edge (mk_edge POSITIVE_CONDITIONING ''conditioning''
                                  TEXT_TO_LATENTS ''positive_conditioning'') graph;
       graph = push_edge (mk_edge NEGATIVE_CONDITIONING ''conditioning''
                                  TEXT_TO_LATENTS ''negative_conditioning'') graph;
       graph = push_edge (mk_edge TEXT_TO_LATENTS ''latents'' LATENTS_TO_IMAGE ''latents'') graph;

       graph =
         (if \<not> shouldRandomizeSeed gen \<and> iterations gen = 1 then
            (let
               noiseNode = NoiseInvocation NOISE (Some (seed gen)) (width gen) (height gen);
               graph = set_node NOISE noiseNode graph;
               graph = push_edge (mk_edge NOISE ''noise'' TEXT_TO_LATENTS ''noise'') graph
             in graph)
          else graph);

       graph =
         (if shouldRandomizeSeed gen \<and> iterations gen = 1 then
            (let
               randomIntNode = RandomIntInvocation RANDOM_INT;
               noiseNode = NoiseInvocation NOISE None (width gen) (height gen);
               graph = set_node RANDOM_INT randomIntNode graph;
               graph = set_node NOISE noiseNode graph;
               graph = push_edge (mk_edge RANDOM_INT ''a'' NOISE ''seed'') graph;
               graph = push_edge (mk_edge NOISE ''noise'' TEXT_TO_LATENTS ''noise'') graph
             in graph)
          else graph);

       graph =
         (if \<not> shouldRandomizeSeed gen \<and> iterations gen > 1 then
            (let
               rangeOfSizeNode =
                 RangeOfSizeInvocation RANGE_OF_SIZE (Some (seed gen)) (iterations gen);
               iterateNode = IterateInvocation ITERATE;
               noiseNode = NoiseInvocation NOISE None (width gen) (height gen);
               graph = set_node RANGE_OF_SIZE rangeOfSizeNode graph;
               graph = set_node ITERATE iterateNode graph;
               graph = set_node NOISE noiseNode graph;
               graph = push_edge (mk_edge RANGE_OF_SIZE ''collection'' ITERATE ''collection'') graph;
               graph = push_edge (mk_edge ITERATE ''item'' NOISE ''seed'') graph;
               graph = push_edge (mk_edge NOISE ''noise'' TEXT_TO_LATENTS ''noise'') graph
             in graph)
          else graph);

       graph =
         (if shouldRandomizeSeed gen \<and> iterations gen > 1 then
            (let
               randomIntNode = RandomIntInvocation RANDOM_INT;
               rangeOfSizeNode = RangeOfSizeInvocation RANGE_OF_SIZE None (iterations gen);
               iterateNode = IterateInvocation ITERATE;
               noiseNode = NoiseInvocation NOISE None (width gen) (height gen);
               graph = set_node RANDOM_INT randomIntNode graph;
               graph = set_node RANGE_OF_SIZE rangeOfSizeNode graph;
               graph = set_node ITERATE iterateNode graph;
               graph = set_node NOISE noiseNode graph;
               graph = push_edge (mk_edge RANDOM_INT ''a'' RANGE_OF_SIZE ''start'') graph;
               graph = push_edge (mk_edge RANGE_OF_SIZE ''collection'' ITERATE ''collection'') graph;
               graph = push_edge (mk_edge ITERATE ''item'' NOISE ''seed'') graph;
               graph = push_edge (mk_edge NOISE ''noise'' TEXT_TO_LATENTS ''noise'') graph
             in graph)
          else graph)
     in addControlNet graph TEXT_TO_LATENTS state)"

text \<open>
  Modelled from the spec: the feature extender \<open>addControlNetToLinearGraph\<close> is not among
  the sources. The spec's contract is that it may only append to the graph; "when it is a
  no-op, [it] leaves the graph exactly as produced by the base assembler". This is that
  no-op, under which the builder returns the base graph.
\<close>

definition noControlNet :: "('g, 'r) extender" where
  "noControlNet graph attachmentNodeId state = graph"

section \<open>The base graphs\<close>

definition fixedNodes :: "'g GenerationState_scheme \<Rightarrow> (string \<times> Invocation) list" where
  "fixedNodes gen =
    [(POSITIVE_CONDITIONING,
        CompelInvocation POSITIVE_CONDITIONING (positivePrompt gen) (model gen)),
     (NEGATIVE_CONDITIONING,
        CompelInvocation NEGATIVE_CONDITIONING (negativePrompt gen) (model gen)),
     (TEXT_TO_LATENTS,
        TextToLatentsInvocation TEXT_TO_LATENTS (cfgScale gen) (model gen) (scheduler gen)
          (steps gen)),
     (LATENTS_TO_IMAGE, LatentsToImageInvocation LATENTS_TO_IMAGE (model gen))]"

definition fixedEdges :: "Edge list" where
  "fixedEdges =
    [mk_edge POSITIVE_CONDITIONING ''conditioning'' TEXT_TO_LATENTS ''positive_conditioning'',
     mk_edge NEGATIVE_CONDITIONING ''conditioning'' TEXT_TO_LATENTS ''negative_conditioning'',
     mk_edge TEXT_TO_LATENTS ''latents'' LATENTS_TO_IMAGE ''latents'']"


section \<open>The seed branches\<close>

text \<open>
  The four rows of the branch table: single or multiple iterations, explicit or random
  seed. \<open>selectBranch\<close> is the row that the pair (randomize, iterations > 1) selects, and
  \<open>branchNodeIds\<close> are the ids of the nodes that the row's block adds to the graph.
\<close>

datatype SeedBranch = SingleExplicit | SingleRandom | MultiExplicit | MultiRandom

fun selectBranch :: "bool \<Rightarrow> bool \<Rightarrow> SeedBranch" where
  "selectBranch False False = SingleExplicit"
| "selectBranch True False = SingleRandom"
| "selectBranch False True = MultiExplicit"
| "selectBranch True True = MultiRandom"

fun branchNodeIds :: "SeedBranch \<Rightarrow> string list" where
  "branchNodeIds SingleExplicit = [NOISE]"
| "branchNodeIds SingleRandom = [RANDOM_INT, NOISE]"
| "branchNodeIds MultiExplicit = [RANGE_OF_SIZE, ITERATE, NOISE]"
| "branchNodeIds MultiRandom = [RANDOM_INT, RANGE_OF_SIZE, ITERATE, NOISE]"

definition fixedNodeIds :: "string list" where
  "fixedNodeIds =
     [POSITIVE_CONDITIONING, NEGATIVE_CONDITIONING, TEXT_TO_LATENTS, LATENTS_TO_IMAGE]"

definition seedNodeIds :: "NonNullableGraph \<Rightarrow> string list" where
  \<comment> \<open>the keys of the graph outside the fixed sub-pipeline\<close>
  "seedNodeIds graph = filter (\<lambda>k. k \<notin> set fixedNodeIds) (map fst (nodes graph))"

definition hasBranch :: "NonNullableGraph \<Rightarrow> SeedBranch \<Rightarrow> bool" where
  \<comment> \<open>the graph holds every node of the row, and no other seed node\<close>
  "hasBranch graph b \<longleftrightarrow>
     list_all (\<lambda>k. k \<in> set (seedNodeIds graph)) (branchNodeIds b) \<and>
     list_all (\<lambda>k. k \<in> set (branchNodeIds b)) (seedNodeIds graph)"

definition firedBranches :: "NonNullableGraph \<Rightarrow> SeedBranch list" where
  "firedBranches graph =
     filter (hasBranch graph) [SingleExplicit, SingleRandom, MultiExplicit, MultiRandom]"

section \<open>Example configurations\<close>

text \<open>
  A configuration with the given seed policy, iteration count and seed, 512 by 512; \<open>r\<close>
  stands for the other slices of the application state.
\<close>

definition exampleState :: "bool \<Rightarrow> int \<Rightarrow> int \<Rightarrow> 'r \<Rightarrow> (unit, 'r) RootState_scheme" where
  "exampleState randomize n s r =
     \<lparr>generation =
        \<lparr>positivePrompt = ''a cat'', negativePrompt = ''blurry'',
         model = ''stable-diffusion-1.5'', cfgScale = 7.5, scheduler = ''euler'',
         steps = 30, width = 512, height = 512, iterations = n, seed = s,
         shouldRandomizeSeed = randomize\<rparr>,
      \<dots> = r\<rparr>"

section \<open>The graph of each branch\<close>

text \<open>
  With the no-op extender the builder returns one of five graphs, written out here; the
  properties below are read off them.
\<close>

lemmas build_defs =
  buildTextToImageGraph_def noControlNet_def set_node_def push_edge_def Let_def
  fixedNodes_def fixedEdges_def

lemma build_single_explicit:
  assumes "\<not> shouldRandomizeSeed (generation state)" and "iterations (generation state) = 1"
  shows "buildTextToImageGraph noControlNet state =
    \<lparr>nodes = fixedNodes (generation state) @
       [(NOISE, NoiseInvocation NOISE (Some (seed (generation state)))
                  (width (generation state)) (height (generation state)))],
     edges = fixedEdges @ [mk_edge NOISE ''noise'' TEXT_TO_LATENTS ''noise'']\<rparr>"
  using assms by (simp add: build_defs node_ids)

lemma build_single_random:
  assumes "shouldRandomizeSeed (generation state)" and "iterations (generation state) = 1"
  shows "buildTextToImageGraph noControlNet state =
    \<lparr>nodes = fixedNodes (generation state) @
       [(RANDOM_INT, RandomIntInvocation RANDOM_INT),
        (NOISE, NoiseInvocation NOISE None
                  (width (generation state)) (height (generation state)))],
     edges = fixedEdges @
       [mk_edge RANDOM_INT ''a'' NOISE ''seed'',
        mk_edge NOISE ''noise'' TEXT_TO_LATENTS ''noise'']\<rparr>"
  using assms by (simp add: build_defs node_ids)

lemma build_multi_explicit:
  assumes "\<not> shouldRandomizeSeed (generation state)" and "iterations (generation state) > 1"
  shows "buildTextToImageGraph noControlNet state =
    \<lparr>nodes = fixedNodes (generation state) @
       [(RANGE_OF_SIZE, RangeOfSizeInvocation RANGE_OF_SIZE (Some (seed (generation state)))
                          (iterations (generation state))),
        (ITERATE, IterateInvocation ITERATE),
        (NOISE, NoiseInvocation NOISE None
                  (width (generation state)) (height (generation state)))],
     edges = fixedEdges @
       [mk_edge RANGE_OF_SIZE ''collection'' ITERATE ''collection'',
        mk_edge ITERATE ''item'' NOISE ''seed'',
        mk_edge NOISE ''noise'' TEXT_TO_LATENTS ''noise'']\<rparr>"
  using assms by (simp add: build_defs node_ids)

lemma build_multi_random:
  assumes "shouldRandomizeSeed (generation state)" and "iterations (generation state) > 1"
  shows "buildTextToImageGraph noControlNet state =
    \<lparr>nodes = fixedNodes (generation state) @
       [(RANDOM_INT, RandomIntInvocation RANDOM_INT),
        (RANGE_OF_SIZE, RangeOfSizeInvocation RANGE_OF_SIZE None
                          (iterations (generation state))),
        (ITERATE, IterateInvocation ITERATE),
        (NOISE, NoiseInvocation NOISE None
                  (width (generation state)) (height (generation state)))],
     edges = fixedEdges @
       [mk_edge RANDOM_INT ''a'' RANGE_OF_SIZE ''start'',
        mk_edge RANGE_OF_SIZE ''collection'' ITERATE ''collection'',
        mk_edge ITERATE ''item'' NOISE ''seed'',
        mk_edge NOISE ''noise'' TEXT_TO_LATENTS ''noise'']\<rparr>"
  using assms by (simp add: build_defs node_ids)

lemma build_no_branch:
  assumes "iterations (generation state) < 1"
  shows "buildTextToImageGraph noControlNet state =
    \<lparr>nodes = fixedNodes (generation state), edges = fixedEdges\<rparr>"
  using assms by (simp add: build_defs node_ids)


lemma seed_policy_cases:
  fixes gen :: "'g GenerationState_scheme"
  obtains (single_explicit) "\<not> shouldRandomizeSeed gen" "iterations gen = 1"
    | (single_random) "shouldRandomizeSeed gen" "iterations gen = 1"
    | (multi_explicit) "\<not> shouldRandomizeSeed gen" "iterations gen > 1"
    | (multi_random) "shouldRandomizeSeed gen" "iterations gen > 1"
    | (no_branch) "iterations gen < 1"
  by (cases "shouldRandomizeSeed gen") (fastforce+)

lemmas graph_defs = fixedNodes_def fixedEdges_def mk_edge_def

lemmas branch_defs = firedBranches_def hasBranch_def seedNodeIds_def fixedNodeIds_def

section \<open>Structural validity\<close>

text \<open>
  Claim C1. For every configuration, with the feature extender a no-op, every edge of the
  graph that \<open>buildTextToImageGraph\<close> returns has its source node id and its destination
  node id among the keys of the graph's node map: there is no dangling edge.
\<close>

theorem no_dangling_edges:
  "\<forall>e \<in> set (edges (buildTextToImageGraph noControlNet state)).
     node_id (source e) \<in> set (map fst (nodes (buildTextToImageGraph noControlNet state))) \<and>
     node_id (destination e) \<in> set (map fst (nodes (buildTextToImageGraph noControlNet state)))"
proof (cases "generation state" rule: seed_policy_cases)
  case single_explicit
  then show ?thesis by (simp add: build_single_explicit graph_defs)
next
  case single_random
  then show ?thesis by (simp add: build_single_random graph_defs)
next
  case multi_explicit
  then show ?thesis by (simp add: build_multi_explicit graph_defs)
next
  case multi_random
  then show ?thesis by (simp add: build_multi_random graph_defs)
next
  case no_branch
  then show ?thesis by (simp add: build_no_branch graph_defs)
qed

theorem no_dangling_edges_witness:
  "mk_edge ITERATE ''item'' NOISE ''seed''
     \<in> set (edges (buildTextToImageGraph noControlNet (exampleState True 5 0 ()))) \<and>
   ITERATE \<in> set (map fst (nodes (buildTextToImageGraph noControlNet (exampleState True 5 0 ())))) \<and>
   NOISE \<in> set (map fst (nodes (buildTextToImageGraph noControlNet (exampleState True 5 0 ()))))"
proof -
  have mem: "mk_edge ITERATE ''item'' NOISE ''seed''
     \<in> set (edges (buildTextToImageGraph noControlNet (exampleState True 5 0 ())))"
    by (simp add: build_defs node_ids exampleState_def)
  from no_dangling_edges [of "exampleState True 5 0 ()"] mem
  have "node_id (source (mk_edge ITERATE ''item'' NOISE ''seed''))
          \<in> set (map fst (nodes (buildTextToImageGraph noControlNet (exampleState True 5 0 ())))) \<and>
        node_id (destination (mk_edge ITERATE ''item'' NOISE ''seed''))
          \<in> set (map fst (nodes (buildTextToImageGraph noControlNet (exampleState True 5 0 ()))))"
    by blast
  with mem show ?thesis by (simp add: mk_edge_def)
qed

section \<open>Branch selection\<close>

text \<open>
  Claim C2 says that for every configuration, with any integer iteration count, the graph
  holds the node set of exactly one row of the branch table. With \<open>iterations = 0\<close> no
  block of the builder runs and the graph holds the node set of no row.
\<close>

theorem exactly_one_branch_counterexample:
  "firedBranches (buildTextToImageGraph noControlNet (exampleState False 0 42 ())) = [] \<and>
   length (firedBranches (buildTextToImageGraph noControlNet (exampleState False 0 42 ()))) \<noteq> 1"
  by (simp add: firedBranches_def hasBranch_def seedNodeIds_def fixedNodeIds_def
      build_defs node_ids exampleState_def)

text \<open>
  Claim C2, amended. For every configuration with \<open>iterations \<ge> 1\<close> and either value of
  \<open>shouldRandomizeSeed\<close>, the returned graph holds the node set of exactly one row of the
  branch table: the row that the pair (randomize, iterations > 1) selects.
\<close>

theorem exactly_one_branch:
  assumes "iterations (generation state) \<ge> 1"
  shows "firedBranches (buildTextToImageGraph noControlNet state) =
    [selectBranch (shouldRandomizeSeed (generation state)) (iterations (generation state) > 1)]"
proof (cases "generation state" rule: seed_policy_cases)
  case single_explicit
  then show ?thesis
    by (simp add: build_single_explicit fixedNodes_def branch_defs node_ids)
next
  case single_random
  then show ?thesis
    by (simp add: build_single_random fixedNodes_def branch_defs node_ids)
next
  case multi_explicit
  then show ?thesis
    by (simp add: build_multi_explicit fixedNodes_def branch_defs node_ids)
next
  case multi_random
  then show ?thesis
    by (simp add: build_multi_random fixedNodes_def branch_defs node_ids)
next
  case no_branch
  with assms show ?thesis by simp
qed

theorem exactly_one_branch_witness:
  "iterations (generation (exampleState True 5 0 ())) \<ge> 1 \<and>
   firedBranches (buildTextToImageGraph noControlNet (exampleState True 5 0 ())) = [MultiRandom]"
proof -
  have pos: "iterations (generation (exampleState True 5 0 ())) \<ge> 1"
    by (simp add: exampleState_def)
  from exactly_one_branch [OF pos] pos show ?thesis
    by (simp add: exampleState_def)
qed

section \<open>The four seed topologies\<close>

text \<open>
  Claim C3. For every configuration with \<open>shouldRandomizeSeed = false\<close> and
  \<open>iterations = 1\<close>, the returned graph holds a noise node that carries the explicit seed
  and the given width and height, holds no random-int, range-of-size or iterate node
  (neither under those ids nor of those types), and holds the edge from the noise node's
  field \<open>noise\<close> to the field \<open>noise\<close> of the denoise node \<open>text_to_latents\<close>.
\<close>

theorem single_explicit_topology:
  assumes "\<not> shouldRandomizeSeed (generation state)"
    and "iterations (generation state) = 1"
  shows "map_of (nodes (buildTextToImageGraph noControlNet state)) NOISE =
           Some (NoiseInvocation NOISE (Some (seed (generation state)))
                   (width (generation state)) (height (generation state))) \<and>
         map_of (nodes (buildTextToImageGraph noControlNet state)) RANDOM_INT = None \<and>
         map_of (nodes (buildTextToImageGraph noControlNet state)) RANGE_OF_SIZE = None \<and>
         map_of (nodes (buildTextToImageGraph noControlNet state)) ITERATE = None \<and>
         list_all (\<lambda>n. inv_type n \<noteq> ''rand_int'' \<and> inv_type n \<noteq> ''range_of_size'' \<and>
                        inv_type n \<noteq> ''iterate'')
           (map snd (nodes (buildTextToImageGraph noControlNet state))) \<and>
         mk_edge NOISE ''noise'' TEXT_TO_LATENTS ''noise''
           \<in> set (edges (buildTextToImageGraph noControlNet state))"
  using assms by (simp add: build_single_explicit fixedNodes_def node_ids)

theorem single_explicit_topology_witness:
  "\<not> shouldRandomizeSeed (generation (exampleState False 1 42 ())) \<and>
   iterations (generation (exampleState False 1 42 ())) = 1 \<and>
   map_of (nodes (buildTextToImageGraph noControlNet (exampleState False 1 42 ()))) NOISE =
     Some (NoiseInvocation NOISE (Some 42) 512 512) \<and>
   map_of (nodes (buildTextToImageGraph noControlNet (exampleState False 1 42 ()))) RANDOM_INT
     = None \<and>
   mk_edge NOISE ''noise'' TEXT_TO_LATENTS ''noise''
     \<in> set (edges (buildTextToImageGraph noControlNet (exampleState False 1 42 ())))"
proof -
  have fixed: "\<not> shouldRandomizeSeed (generation (exampleState False 1 42 ()))"
    and one: "iterations (generation (exampleState False 1 42 ())) = 1"
    by (simp_all add: exampleState_def)
  from single_explicit_topology [OF fixed one] fixed one show ?thesis
    by (simp add: exampleState_def)
qed

text \<open>
  Claim C4. For every configuration with \<open>shouldRandomizeSeed = true\<close> and
  \<open>iterations = 1\<close>, the returned graph holds a random-int node and a noise node without
  a literal seed, holds the edge from the random-int node's field \<open>a\<close> to the noise
  node's field \<open>seed\<close>, and holds no range-of-size or iterate node.
\<close>

theorem single_random_topology:
  assumes "shouldRandomizeSeed (generation state)"
    and "iterations (generation state) = 1"
  shows "map_of (nodes (buildTextToImageGraph noControlNet state)) RANDOM_INT =
           Some (RandomIntInvocation RANDOM_INT) \<and>
         map_of (nodes (buildTextToImageGraph noControlNet state)) NOISE =
           Some (NoiseInvocation NOISE None
                   (width (generation state)) (height (generation state))) \<and>
         mk_edge RANDOM_INT ''a'' NOISE ''seed''
           \<in> set (edges (buildTextToImageGraph noControlNet state)) \<and>
         map_of (nodes (buildTextToImageGraph noControlNet state)) RANGE_OF_SIZE = None \<and>
         map_of (nodes (buildTextToImageGraph noControlNet state)) ITERATE = None \<and>
         list_all (\<lambda>n. inv_type n \<noteq> ''range_of_size'' \<and> inv_type n \<noteq> ''iterate'')
           (map snd (nodes (buildTextToImageGraph noControlNet state)))"
  using assms by (simp add: build_single_random fixedNodes_def node_ids)

theorem single_random_topology_witness:
  "shouldRandomizeSeed (generation (exampleState True 1 42 ())) \<and>
   iterations (generation (exampleState True 1 42 ())) = 1 \<and>
   map_of (nodes (buildTextToImageGraph noControlNet (exampleState True 1 42 ()))) NOISE =
     Some (NoiseInvocation NOISE None 512 512) \<and>
   mk_edge RANDOM_INT ''a'' NOISE ''seed''
     \<in> set (edges (buildTextToImageGraph noControlNet (exampleState True 1 42 ()))) \<and>
   map_of (nodes (buildTextToImageGraph noControlNet (exampleState True 1 42 ()))) ITERATE
     = None"
proof -
  have rand: "shouldRandomizeSeed (generation (exampleState True 1 42 ()))"
    and one: "iterations (generation (exampleState True 1 42 ())) = 1"
    by (simp_all add: exampleState_def)
  from single_random_topology [OF rand one] rand one show ?thesis
    by (simp add: exampleState_def)
qed

text \<open>
  Claim C5. For every configuration with \<open>shouldRandomizeSeed = false\<close> and
  \<open>iterations > 1\<close>, the returned graph holds a range-of-size node whose start is the
  explicit seed and whose size is the iteration count, an iterate node, and a noise node
  without a literal seed, together with the edges from the range-of-size node's
  \<open>collection\<close> to the iterate node's \<open>collection\<close> and from the iterate node's
  \<open>item\<close> to the noise node's \<open>seed\<close>.
\<close>

theorem multi_explicit_topology:
  assumes "\<not> shouldRandomizeSeed (generation state)"
    and "iterations (generation state) > 1"
  shows "map_of (nodes (buildTextToImageGraph noControlNet state)) RANGE_OF_SIZE =
           Some (RangeOfSizeInvocation RANGE_OF_SIZE (Some (seed (generation state)))
                   (iterations (generation state))) \<and>
         map_of (nodes (buildTextToImageGraph noControlNet state)) ITERATE =
           Some (IterateInvocation ITERATE) \<and>
         map_of (nodes (buildTextToImageGraph noControlNet state)) NOISE =
           Some (NoiseInvocation NOISE None
                   (width (generation state)) (height (generation state))) \<and>
         mk_edge RANGE_OF_SIZE ''collection'' ITERATE ''collection''
           \<in> set (edges (buildTextToImageGraph noControlNet state)) \<and>
         mk_edge ITERATE ''item'' NOISE ''seed''
           \<in> set (edges (buildTextToImageGraph noControlNet state))"
  using assms by (simp add: build_multi_explicit fixedNodes_def node_ids)

theorem multi_explicit_topology_witness:
  "\<not> shouldRandomizeSeed (generation (exampleState False 5 7 ())) \<and>
   iterations (generation (exampleState False 5 7 ())) > 1 \<and>
   map_of (nodes (buildTextToImageGraph noControlNet (exampleState False 5 7 ()))) RANGE_OF_SIZE
     = Some (RangeOfSizeInvocation RANGE_OF_SIZE (Some 7) 5) \<and>
   map_of (nodes (buildTextToImageGraph noControlNet (exampleState False 5 7 ()))) NOISE
     = Some (NoiseInvocation NOISE None 512 512) \<and>
   mk_edge ITERATE ''item'' NOISE ''seed''
     \<in> set (edges (buildTextToImageGraph noControlNet (exampleState False 5 7 ())))"
proof -
  have fixed: "\<not> shouldRandomizeSeed (generation (exampleState False 5 7 ()))"
    and many: "iterations (generation (exampleState False 5 7 ())) > 1"
    by (simp_all add: exampleState_def)
  from multi_explicit_topology [OF fixed many] fixed many show ?thesis
    by (simp add: exampleState_def)
qed

text \<open>
  Claim C6. For every configuration with \<open>shouldRandomizeSeed = true\<close> and
  \<open>iterations > 1\<close>, the returned graph holds a random-int node, a range-of-size node
  whose size is the iteration count and which has no literal start, an iterate node, and a
  noise node without a literal seed; it holds the edge from the random-int node's field
  \<open>a\<close> to the range-of-size node's field \<open>start\<close>, and the wiring from range-of-size
  through iterate to the noise node's \<open>seed\<close>.
\<close>

theorem multi_random_topology:
  assumes "shouldRandomizeSeed (generation state)"
    and "iterations (generation state) > 1"
  shows "map_of (nodes (buildTextToImageGraph noControlNet state)) RANDOM_INT =
           Some (RandomIntInvocation RANDOM_INT) \<and>
         map_of (nodes (buildTextToImageGraph noControlNet state)) RANGE_OF_SIZE =
           Some (RangeOfSizeInvocation RANGE_OF_SIZE None (iterations (generation state))) \<and>
         map_of (nodes (buildTextToImageGraph noControlNet state)) ITERATE =
           Some (IterateInvocation ITERATE) \<and>
         map_of (nodes (buildTextToImageGraph noControlNet state)) NOISE =
           Some (NoiseInvocation NOISE None
                   (width (generation state)) (height (generation state))) \<and>
         mk_edge RANDOM_INT ''a'' RANGE_OF_SIZE ''start''
           \<in> set (edges (buildTextToImageGraph noControlNet state)) \<and>
         mk_edge RANGE_OF_SIZE ''collection'' ITERATE ''collection''
           \<in> set (edges (buildTextToImageGraph noControlNet state)) \<and>
         mk_edge ITERATE ''item'' NOISE ''seed''
           \<in> set (edges (buildTextToImageGraph noControlNet state))"
  using assms by (simp add: build_multi_random fixedNodes_def node_ids)

theorem multi_random_topology_witness:
  "shouldRandomizeSeed (generation (exampleState True 5 7 ())) \<and>
   iterations (generation (exampleState True 5 7 ())) > 1 \<and>
   map_of (nodes (buildTextToImageGraph noControlNet (exampleState True 5 7 ()))) RANGE_OF_SIZE
     = Some (RangeOfSizeInvocation RANGE_OF_SIZE None 5) \<and>
   map_of (nodes (buildTextToImageGraph noControlNet (exampleState True 5 7 ()))) RANDOM_INT
     = Some (RandomIntInvocation RANDOM_INT) \<and>
   mk_edge RANDOM_INT ''a'' RANGE_OF_SIZE ''start''
     \<in> set (edges (buildTextToImageGraph noControlNet (exampleState True 5 7 ())))"
proof -
  have rand: "shouldRandomizeSeed (generation (exampleState True 5 7 ()))"
    and many: "iterations (generation (exampleState True 5 7 ())) > 1"
    by (simp_all add: exampleState_def)
  from multi_random_topology [OF rand many] rand many show ?thesis
    by (simp add: exampleState_def)
qed

section \<open>The fixed sub-pipeline\<close>

text \<open>
  Claim C7. For every configuration, whichever branch runs, the returned graph holds the
  three fixed edges (positive conditioning to the denoise node's \<open>positive_conditioning\<close>,
  negative conditioning to its \<open>negative_conditioning\<close>, and the denoise node's
  \<open>latents\<close> to the decode node's \<open>latents\<close>) as its first three edges, and the four
  fixed nodes, which carry the prompts, the model, the guidance scale, the scheduler and
  the step count of the configuration.
\<close>

theorem fixed_sub_pipeline:
  "take 3 (edges (buildTextToImageGraph noControlNet state)) =
     [mk_edge POSITIVE_CONDITIONING ''conditioning'' TEXT_TO_LATENTS ''positive_conditioning'',
      mk_edge NEGATIVE_CONDITIONING ''conditioning'' TEXT_TO_LATENTS ''negative_conditioning'',
      mk_edge TEXT_TO_LATENTS ''latents'' LATENTS_TO_IMAGE ''latents''] \<and>
   mk_edge POSITIVE_CONDITIONING ''conditioning'' TEXT_TO_LATENTS ''positive_conditioning''
     \<in> set (edges (buildTextToImageGraph noControlNet state)) \<and>
   mk_edge NEGATIVE_CONDITIONING ''conditioning'' TEXT_TO_LATENTS ''negative_conditioning''
     \<in> set (edges (buildTextToImageGraph noControlNet state)) \<and>
   mk_edge TEXT_TO_LATENTS ''latents'' LATENTS_TO_IMAGE ''latents''
     \<in> set (edges (buildTextToImageGraph noControlNet state)) \<and>
   map_of (nodes (buildTextToImageGraph noControlNet state)) POSITIVE_CONDITIONING =
     Some (CompelInvocation POSITIVE_CONDITIONING (positivePrompt (generation state))
             (model (generation state))) \<and>
   map_of (nodes (buildTextToImageGraph noControlNet state)) NEGATIVE_CONDITIONING =
     Some (CompelInvocation NEGATIVE_CONDITIONING (negativePrompt (generation state))
             (model (generation state))) \<and>
   map_of (nodes (buildTextToImageGraph noControlNet state)) TEXT_TO_LATENTS =
     Some (TextToLatentsInvocation TEXT_TO_LATENTS (cfgScale (generation state))
             (model (generation state)) (scheduler (generation state))
             (steps (generation state))) \<and>
   map_of (nodes (buildTextToImageGraph noControlNet state)) LATENTS_TO_IMAGE =
     Some (LatentsToImageInvocation LATENTS_TO_IMAGE (model (generation state)))"
proof (cases "generation state" rule: seed_policy_cases)
  case single_explicit
  then show ?thesis
    by (simp add: build_single_explicit fixedNodes_def fixedEdges_def node_ids)
next
  case single_random
  then show ?thesis
    by (simp add: build_single_random fixedNodes_def fixedEdges_def node_ids)
next
  case multi_explicit
  then show ?thesis
    by (simp add: build_multi_explicit fixedNodes_def fixedEdges_def node_ids)
next
  case multi_random
  then show ?thesis
    by (simp add: build_multi_random fixedNodes_def fixedEdges_def node_ids)
next
  case no_branch
  then show ?thesis
    by (simp add: build_no_branch fixedNodes_def fixedEdges_def node_ids)
qed

section \<open>Node identifiers\<close>

text \<open>
  Claim C9. For every configuration, the keys of the returned graph's node map are
  pairwise distinct and every node stored under a key carries that key as its \<open>id\<close>. No
  assignment of the builder overwrites an earlier node: the node map has as many entries
  as the branch that ran constructs nodes, the four fixed ones and one, two, three or four
  seed nodes (none when no branch runs), and that many distinct ids.
\<close>

theorem node_ids_unique:
  "distinct (map fst (nodes (buildTextToImageGraph noControlNet state))) \<and>
   list_all (\<lambda>(k, n). inv_id n = k) (nodes (buildTextToImageGraph noControlNet state)) \<and>
   card (set (map fst (nodes (buildTextToImageGraph noControlNet state)))) =
     length (nodes (buildTextToImageGraph noControlNet state)) \<and>
   length (nodes (buildTextToImageGraph noControlNet state)) =
     (if iterations (generation state) < 1 then 4
      else 4 + length (branchNodeIds
             (selectBranch (shouldRandomizeSeed (generation state))
                (iterations (generation state) > 1))))"
proof -
  let ?g = "buildTextToImageGraph noControlNet state"
  have core: "distinct (map fst (nodes ?g)) \<and>
    list_all (\<lambda>(k, n). inv_id n = k) (nodes ?g) \<and>
    length (nodes ?g) =
      (if iterations (generation state) < 1 then 4
       else 4 + length (branchNodeIds
              (selectBranch (shouldRandomizeSeed (generation state))
                 (iterations (generation state) > 1))))"
  proof (cases "generation state" rule: seed_policy_cases)
    case single_explicit
    then show ?thesis by (simp add: build_single_explicit fixedNodes_def node_ids)
  next
    case single_random
    then show ?thesis by (simp add: build_single_random fixedNodes_def node_ids)
  next
    case multi_explicit
    then show ?thesis by (simp add: build_multi_explicit fixedNodes_def node_ids)
  next
    case multi_random
    then show ?thesis by (simp add: build_multi_random fixedNodes_def node_ids)
  next
    case no_branch
    then show ?thesis by (simp add: build_no_branch fixedNodes_def node_ids)
  qed
  then have "card (set (map fst (nodes ?g))) = length (map fst (nodes ?g))"
    using distinct_card [of "map fst (nodes ?g)"] by blast
  with core show ?thesis by simp
qed

theorem node_ids_unique_witness:
  "distinct (map fst (nodes (buildTextToImageGraph noControlNet (exampleState True 5 0 ())))) \<and>
   inv_id (the (map_of (nodes (buildTextToImageGraph noControlNet (exampleState True 5 0 ())))
     RANGE_OF_SIZE)) = RANGE_OF_SIZE \<and>
   length (nodes (buildTextToImageGraph noControlNet (exampleState True 5 0 ()))) = 8"
proof -
  have look: "map_of (nodes (buildTextToImageGraph noControlNet (exampleState True 5 0 ())))
      RANGE_OF_SIZE = Some (RangeOfSizeInvocation RANGE_OF_SIZE None 5)"
    by (simp add: build_defs node_ids exampleState_def)
  from node_ids_unique [of "exampleState True 5 0 ()"] look show ?thesis
    by (simp add: exampleState_def)
qed

section \<open>Iteration counts below one\<close>

text \<open>
  Claim C10. For every configuration with \<open>iterations < 1\<close>, whatever
  \<open>shouldRandomizeSeed\<close> is, no seed block runs: the returned base graph is exactly the
  four fixed nodes and the three fixed edges. In particular it has no noise node, and no
  edge into the field \<open>noise\<close> of the denoise node.
\<close>

theorem no_branch_below_one:
  assumes "iterations (generation state) < 1"
  shows "buildTextToImageGraph noControlNet state =
           \<lparr>nodes =
              [(POSITIVE_CONDITIONING,
                  CompelInvocation POSITIVE_CONDITIONING (positivePrompt (generation state))
                    (model (generation state))),
               (NEGATIVE_CONDITIONING,
                  CompelInvocation NEGATIVE_CONDITIONING (negativePrompt (generation state))
                    (model (generation state))),
               (TEXT_TO_LATENTS,
                  TextToLatentsInvocation TEXT_TO_LATENTS (cfgScale (generation state))
                    (model (generation state)) (scheduler (generation state))
                    (steps (generation state))),
               (LATENTS_TO_IMAGE,
                  LatentsToImageInvocation LATENTS_TO_IMAGE (model (generation state)))],
            edges =
              [mk_edge POSITIVE_CONDITIONING ''conditioning''
                 TEXT_TO_LATENTS ''positive_conditioning'',
               mk_edge NEGATIVE_CONDITIONING ''conditioning''
                 TEXT_TO_LATENTS ''negative_conditioning'',
               mk_edge TEXT_TO_LATENTS ''latents'' LATENTS_TO_IMAGE ''latents'']\<rparr> \<and>
         map_of (nodes (buildTextToImageGraph noControlNet state)) NOISE = None \<and>
         list_all (\<lambda>n. inv_type n \<noteq> ''noise'')
           (map snd (nodes (buildTextToImageGraph noControlNet state))) \<and>
         list_all (\<lambda>e. destination e \<noteq> \<lparr>node_id = TEXT_TO_LATENTS, field = ''noise''\<rparr>)
           (edges (buildTextToImageGraph noControlNet state)) \<and>
         firedBranches (buildTextToImageGraph noControlNet state) = []"
  using assms
  by (simp add: build_no_branch fixedNodes_def fixedEdges_def mk_edge_def branch_defs node_ids)

theorem no_branch_below_one_witness:
  "iterations (generation (exampleState True 0 42 ())) < 1 \<and>
   length (nodes (buildTextToImageGraph noControlNet (exampleState True 0 42 ()))) = 4 \<and>
   length (edges (buildTextToImageGraph noControlNet (exampleState True 0 42 ()))) = 3 \<and>
   map_of (nodes (buildTextToImageGraph noControlNet (exampleState True 0 42 ()))) NOISE = None"
proof -
  have low: "iterations (generation (exampleState True 0 42 ())) < 1"
    by (simp add: exampleState_def)
  from no_branch_below_one [OF low] low show ?thesis
    by (simp add: node_ids)
qed

end
